theory Spec2Isabelle
  imports Main "HOL-Library.Word"
begin

unbundle bit_operations_syntax

section \<open>Types of the schema object, as \<open>reflect.Type\<close> shows them\<close>

text \<open>
  The engine of \<open>set.go\<close> inspects the caller's schema object through package
  \<open>reflect\<close>. A type is modelled by what the code asks of it: its name (empty for
  an unnamed type), its kind, its element and key types and, for a struct, its
  fields. Type identity (\<open>==\<close> on \<open>reflect.Type\<close>) is equality of these terms.
  Struct types carry their direct fields; promotion of the members of embedded
  fields and recursive types are outside the model.
\<close>

datatype kind =
  Invalid | Bool | IntK | Int8 | Int16 | Int32 | Int64
  | Uint | Uint8 | Uint16 | Uint32 | Uint64 | Uintptr
  | Float32 | Float64 | Complex64 | Complex128
  | Array | Chan | Func | Interface | Map | Ptr | Slice | String | Struct
  | UnsafePointer

datatype gtype =
  Basic string kind
  | PtrTo string gtype
  | SliceOf string gtype
  | MapOf string gtype gtype
  | StructOf string "field list"
and field =
  Field (fname: string) (ftag: string) (fexported: bool) (ftype: gtype)

text \<open>
  \<open>Basic n k\<close> is a type of a kind without element types, predeclared
  (\<open>Basic ''int'' IntK\<close>) or defined (\<open>type Level int\<close> is \<open>Basic ''Level'' IntK\<close>). The
  first argument of the other constructors is the name of a defined type, empty
  for a type literal. \<open>ftag\<close> is the value of the field's \<open>gcfg\<close> key,
  \<open>f.Tag.Get("gcfg")\<close>; \<open>fexported\<close> says that the field is exported, which for a
  field of an addressable struct is \<open>CanSet()\<close>.
\<close>

fun Name :: "gtype \<Rightarrow> string" where
  "Name (Basic n k) = n"
| "Name (PtrTo n t) = n"
| "Name (SliceOf n t) = n"
| "Name (MapOf n k t) = n"
| "Name (StructOf n fs) = n"

fun Kind :: "gtype \<Rightarrow> kind" where
  "Kind (Basic n k) = k"
| "Kind (PtrTo n t) = Ptr"
| "Kind (SliceOf n t) = Slice"
| "Kind (MapOf n k t) = Map"
| "Kind (StructOf n fs) = Struct"

definition intT :: gtype where "intT = Basic ''int'' IntK"
definition int8T :: gtype where "int8T = Basic ''int8'' Int8"
definition int16T :: gtype where "int16T = Basic ''int16'' Int16"
definition int32T :: gtype where "int32T = Basic ''int32'' Int32"
definition int64T :: gtype where "int64T = Basic ''int64'' Int64"
definition uintT :: gtype where "uintT = Basic ''uint'' Uint"
definition uint8T :: gtype where "uint8T = Basic ''uint8'' Uint8"
definition uint16T :: gtype where "uint16T = Basic ''uint16'' Uint16"
definition uint32T :: gtype where "uint32T = Basic ''uint32'' Uint32"
definition uint64T :: gtype where "uint64T = Basic ''uint64'' Uint64"
definition uintptrT :: gtype where "uintptrT = Basic ''uintptr'' Uintptr"
definition stringT :: gtype where "stringT = Basic ''string'' String"
definition boolT :: gtype where "boolT = Basic ''bool'' Bool"

text \<open>\<open>big.Int\<close> of \<open>math/big\<close>: a struct of two unexported fields.\<close>

definition bigInt :: gtype where
  "bigInt = StructOf ''big.Int''
     [Field ''neg'' [] False boolT,
      Field ''abs'' [] False (SliceOf ''big.nat'' (Basic ''big.Word'' Uint))]"

section \<open>Tags\<close>

record tag =
  ident :: string
  intMode :: string

text \<open>\<open>strings.Split(ts, ",")\<close>: never empty, \<open>[""]\<close> for the empty string.\<close>

fun Split :: "string \<Rightarrow> char \<Rightarrow> string list" where
  "Split [] sep = [[]]"
| "Split (c # cs) sep =
     (if c = sep then [] # Split cs sep
      else (case Split cs sep of
              [] \<Rightarrow> [[c]]
            | w # ws \<Rightarrow> (c # w) # ws))"

definition HasPrefix :: "string \<Rightarrow> string \<Rightarrow> bool" where
  "HasPrefix s p \<longleftrightarrow> take (length p) s = p"

definition newTag :: "string \<Rightarrow> tag" where
  "newTag ts =
     (let s = Split ts CHR '','' in
      foldl (\<lambda>t tse. if HasPrefix tse ''int='' then t\<lparr>intMode := drop (length ''int='') tse\<rparr> else t)
        \<lparr>ident = hd s, intMode = []\<rparr> (tl s))"

section \<open>Collaborators outside \<open>set.go\<close>\<close>

text \<open>
  The Unicode tables behind \<open>strings.EqualFold\<close> and \<open>unicode.IsLetter\<close>, the
  parsers of package \<open>types\<close>, the text-unmarshal methods of the caller's types
  and the gob encoding are not part of \<open>set.go\<close>. They are parameters of the
  model, collected in one record, and every theorem holds for all of them.
  A converter is given the type and the current value of its destination and
  the text; it answers with the destination's value afterwards and its error
  message, if it failed.
\<close>

type_synonym addr = nat
type_synonym place = "addr \<times> nat list"

datatype val =
  VBool bool
  | VInt int
  | VString string
  | VPtr "place option"
  | VSlice "val list"
  | VMap "addr option"
  | VStruct "val list"
  | VOther string

text \<open>
  A value lives in a cell of the heap, or inside a struct that does: a place is
  the address of the cell and the path of field indices into it. A pointer holds
  a place; a map value holds the address of its table.

  A \<open>tree\<close> is a value without addresses, as a decoder reads it off a byte
  string before any storage for it exists.
\<close>

datatype tree =
  TBool bool
  | TInt int
  | TString string
  | TPtr "tree option"
  | TSlice "tree list"
  | TMap "(string \<times> tree) list option"
  | TStruct "tree list"
  | TOther string

type_synonym IntMode = "8 word"

record env =
  EqualFold :: "string \<Rightarrow> string \<Rightarrow> bool"
  CaselessLetter :: "string \<Rightarrow> bool"
  ParseBool :: "string \<Rightarrow> string + bool"
  ParseInt :: "gtype \<Rightarrow> val \<Rightarrow> string \<Rightarrow> IntMode \<Rightarrow> val \<times> string option"
  ScanFully :: "gtype \<Rightarrow> val \<Rightarrow> string \<Rightarrow> val \<times> string option"
  TextUnmarshaler :: "gtype \<Rightarrow> (val \<Rightarrow> string \<Rightarrow> val \<times> string option) option"
  GobEncode :: "gtype \<Rightarrow> val list \<Rightarrow> (string \<rightharpoonup> val) list \<Rightarrow> val \<Rightarrow> string \<times> string option"
  GobDecode :: "string \<Rightarrow> gtype \<Rightarrow> tree option \<times> string option"

text \<open>
  \<open>CaselessLetter name\<close> is the test of \<open>fieldFold\<close> on the first rune of \<open>name\<close>:
  \<open>unicode.IsLetter(r0) && !unicode.IsLower(r0) && !unicode.IsUpper(r0)\<close>.
  \<open>TextUnmarshaler t\<close> is the \<open>UnmarshalText\<close> method of \<open>*t\<close>, when \<open>*t\<close> implements
  \<open>encoding.TextUnmarshaler\<close>.
\<close>

text \<open>Modelled from the spec: the base flags of package \<open>types\<close>, which \<open>set.go\<close>
  combines with \<open>|\<close> and compares with 0: one independent bit each for decimal,
  hexadecimal and octal.\<close>

definition Dec :: IntMode where "Dec = 1"
definition Hex :: IntMode where "Hex = 2"
definition Oct :: IntMode where "Oct = 4"

section \<open>Field resolution\<close>

datatype abort = Panic string | IllTyped

text \<open>
  \<open>Panic\<close> is a Go panic with its message. \<open>IllTyped\<close> marks a state that no Go
  program reaches: a value that does not have the shape of its type, or a pointer
  to nothing.
\<close>

text \<open>\<open>FieldByName\<close> on direct fields: the first field of that name, with its index.\<close>

fun FieldByName :: "field list \<Rightarrow> string \<Rightarrow> (nat \<times> field) option" where
  "FieldByName [] n = None"
| "FieldByName (f # fs) n =
     (if fname f = n then Some (0, f)
      else map_option (\<lambda>(i, g). (Suc i, g)) (FieldByName fs n))"

text \<open>
  \<open>Type.FieldByNameFunc\<close> on direct fields: the field whose name satisfies
  \<open>match\<close>; several matching fields cancel each other and there is no match.
\<close>

definition FieldByNameFunc :: "field list \<Rightarrow> (string \<Rightarrow> bool) \<Rightarrow> field option" where
  "FieldByNameFunc fs match =
     (case filter (\<lambda>f. match (fname f)) fs of
        [f] \<Rightarrow> Some f
      | _ \<Rightarrow> None)"

definition foldedName :: "env \<Rightarrow> string \<Rightarrow> string" where
  "foldedName E name =
     (if CaselessLetter E name then ''X'' else []) @
     map (\<lambda>c. if c = CHR ''-'' then CHR ''_'' else c) name"

definition fieldMatch :: "env \<Rightarrow> field list \<Rightarrow> string \<Rightarrow> string \<Rightarrow> bool" where
  "fieldMatch E fs name fieldName =
     (case FieldByName fs fieldName of
        None \<Rightarrow> False
      | Some (i, f) \<Rightarrow>
          if \<not> fexported f then False
          else let t = newTag (ftag f) in
               if ident t \<noteq> [] then EqualFold E (ident t) name
               else EqualFold E (foldedName E name) fieldName)"

text \<open>
  \<open>fieldFold\<close> answers with the field as a \<open>reflect.Value\<close>, which is its index in
  the struct and its type, and with the field's tag; \<open>None\<close> is the zero
  \<open>reflect.Value\<close>. On a type that is no struct \<open>FieldByNameFunc\<close> panics.
\<close>

definition fieldFold :: "env \<Rightarrow> gtype \<Rightarrow> string \<Rightarrow> abort + (nat \<times> gtype \<times> tag) option" where
  "fieldFold E t name =
     (case t of
        StructOf n fs \<Rightarrow>
          (case FieldByNameFunc fs (fieldMatch E fs name) of
             None \<Rightarrow> Inr None
           | Some f \<Rightarrow>
               (case FieldByName fs (fname f) of
                  None \<Rightarrow> Inr None
                | Some (i, g) \<Rightarrow> Inr (Some (i, ftype g, newTag (ftag f)))))
      | _ \<Rightarrow> Inl (Panic ''reflect: FieldByNameFunc of non-struct type''))"

section \<open>Errors and the collector\<close>

text \<open>Modelled from the spec: the location of a diagnostic, a triple of section,
  optional subsection and optional variable name (type \<open>loc\<close> of the package).\<close>

record loc =
  loc_section :: string
  loc_subsection :: "string option"
  loc_variable :: "string option"

text \<open>The errors a setter returns: the two of \<open>set.go\<close>, compared by identity, and
  the errors of the collaborators, known by their message.\<close>

datatype error = errUnsupportedType | errBlankUnsupported | errorString string

fun Error :: "error \<Rightarrow> string" where
  "Error errUnsupportedType = ''unsupported type''"
| "Error errBlankUnsupported = ''blank value not supported for type''"
| "Error (errorString m) = m"

text \<open>Modelled from the spec: the diagnostics, \<open>extraData\<close> for an unrecognised name
  and \<open>locErr\<close> for a failed conversion with its message and location (both types
  of the package); \<open>otherError\<close> is any other error handed to the collector.\<close>

datatype diag = extraData loc | locErr string loc | otherError string

text \<open>
  The collector of package \<open>warnings\<close>: \<open>Collect\<close> of no error changes nothing;
  a fatal error ends the collection and is returned, any other error is kept as
  a warning. \<open>Collect\<close> on a collector that is done panics.
\<close>

record Collector =
  IsFatal :: "diag \<Rightarrow> bool"
  Warnings :: "diag list"
  Fatal :: "diag option"
  isDone :: bool

definition Collect :: "Collector \<Rightarrow> diag option \<Rightarrow> abort + diag option \<times> Collector" where
  "Collect c err =
     (if isDone c then Inl (Panic ''warnings.Collector already done'')
      else case err of
             None \<Rightarrow> Inr (None, c)
           | Some e \<Rightarrow>
               (let c' = (if IsFatal c e then c\<lparr>isDone := True, Fatal := Some e\<rparr>
                          else c\<lparr>Warnings := Warnings c @ [e]\<rparr>)
                in Inr (Fatal c', c')))"

section \<open>The state: heap, map tables and collector\<close>

record state =
  objs :: "val list"
  tbls :: "(string \<rightharpoonup> val) list"
  coll :: Collector

fun get_at :: "val \<Rightarrow> nat list \<Rightarrow> val option" where
  "get_at v [] = Some v"
| "get_at (VStruct vs) (i # p) = (if i < length vs then get_at (vs ! i) p else None)"
| "get_at v (i # p) = None"

fun put_at :: "val \<Rightarrow> nat list \<Rightarrow> val \<Rightarrow> val option" where
  "put_at v [] w = Some w"
| "put_at (VStruct vs) (i # p) w =
     (if i < length vs then map_option (\<lambda>u. VStruct (vs[i := u])) (put_at (vs ! i) p w)
      else None)"
| "put_at v (i # p) w = None"


definition load :: "state \<Rightarrow> place \<Rightarrow> abort + val" where
  "load s pl =
     (if fst pl < length (objs s) then
        (case get_at (objs s ! fst pl) (snd pl) of
           None \<Rightarrow> Inl IllTyped
         | Some v \<Rightarrow> Inr v)
      else Inl IllTyped)"

definition store :: "state \<Rightarrow> place \<Rightarrow> val \<Rightarrow> abort + state" where
  "store s pl w =
     (if fst pl < length (objs s) then
        (case put_at (objs s ! fst pl) (snd pl) w of
           None \<Rightarrow> Inl IllTyped
         | Some c \<Rightarrow> Inr (s\<lparr>objs := (objs s)[fst pl := c]\<rparr>))
      else Inl IllTyped)"

text \<open>\<open>reflect.New\<close>: a fresh cell. No cell is ever freed.\<close>

definition alloc :: "state \<Rightarrow> val \<Rightarrow> place \<times> state" where
  "alloc s v = ((length (objs s), []), s\<lparr>objs := objs s @ [v]\<rparr>)"

text \<open>\<open>reflect.MakeMap\<close>, or a map literal: a fresh table.\<close>

definition allocTable :: "state \<Rightarrow> (string \<rightharpoonup> val) \<Rightarrow> addr \<times> state" where
  "allocTable s m = (length (tbls s), s\<lparr>tbls := tbls s @ [m]\<rparr>)"

definition field_of :: "place \<Rightarrow> nat \<Rightarrow> place" where
  "field_of pl i = (fst pl, snd pl @ [i])"

fun isIntKind :: "kind \<Rightarrow> bool" where
  "isIntKind IntK = True"
| "isIntKind Int8 = True"
| "isIntKind Int16 = True"
| "isIntKind Int32 = True"
| "isIntKind Int64 = True"
| "isIntKind Uint = True"
| "isIntKind Uint8 = True"
| "isIntKind Uint16 = True"
| "isIntKind Uint32 = True"
| "isIntKind Uint64 = True"
| "isIntKind Uintptr = True"
| "isIntKind k = False"

text \<open>\<open>reflect.Zero\<close>: the zero value of a type.\<close>

fun Zero :: "gtype \<Rightarrow> val" and ZeroField :: "field \<Rightarrow> val" where
  "Zero (Basic n k) =
     (if k = Bool then VBool False
      else if k = String then VString []
      else if isIntKind k then VInt 0
      else VOther [])"
| "Zero (PtrTo n t) = VPtr None"
| "Zero (SliceOf n t) = VSlice []"
| "Zero (MapOf n k t) = VMap None"
| "Zero (StructOf n fs) = VStruct (map ZeroField fs)"
| "ZeroField (Field n tg e t) = Zero t"

text \<open>
  Assignability of a value of type \<open>V\<close> to type \<open>T\<close>, as \<open>Value.Set\<close> and
  \<open>Value.SetMapIndex\<close> check it and panic otherwise: the types are identical, or
  not both are named and they have the same underlying type. (Interface types,
  which no value here has, are left out.)
\<close>

fun unname :: "gtype \<Rightarrow> gtype" where
  "unname (Basic n k) = Basic [] k"
| "unname (PtrTo n t) = PtrTo [] t"
| "unname (SliceOf n t) = SliceOf [] t"
| "unname (MapOf n k t) = MapOf [] k t"
| "unname (StructOf n fs) = StructOf [] fs"

definition directlyAssignable :: "gtype \<Rightarrow> gtype \<Rightarrow> bool" where
  "directlyAssignable T V \<longleftrightarrow>
     T = V \<or> (\<not> (Name T \<noteq> [] \<and> Name V \<noteq> []) \<and> Kind T = Kind V \<and> unname T = unname V)"

section \<open>The setters\<close>

text \<open>
  A setter is given the element type of its destination pointer \<open>d\<close> and the
  value \<open>d\<close> points to; it answers with that value afterwards and its error, or
  panics.
\<close>

type_synonym setter =
  "env \<Rightarrow> gtype \<Rightarrow> val \<Rightarrow> bool \<Rightarrow> string \<Rightarrow> tag \<Rightarrow> abort + val \<times> error option"

definition textUnmarshalerSetter :: setter where
  "textUnmarshalerSetter E T d blank val t =
     (case TextUnmarshaler E T of
        None \<Rightarrow> Inr (d, Some errUnsupportedType)
      | Some unmarshalText \<Rightarrow>
          if blank then Inr (d, Some errBlankUnsupported)
          else (case unmarshalText d val of
                  (d', err) \<Rightarrow> Inr (d', map_option errorString err)))"

definition boolSetter :: setter where
  "boolSetter E T d blank val t =
     (if blank then
        (if directlyAssignable T boolT then Inr (VBool True, None)
         else Inl (Panic ''reflect.Set: value of type bool is not assignable''))
      else (case ParseBool E val of
              Inr b \<Rightarrow>
                (if directlyAssignable T boolT then Inr (VBool b, None)
                 else Inl (Panic ''reflect.Set: value of type bool is not assignable''))
            | Inl err \<Rightarrow> Inr (d, Some (errorString err))))"

definition ContainsAny :: "string \<Rightarrow> string \<Rightarrow> bool" where
  "ContainsAny s chars \<longleftrightarrow> list_ex (\<lambda>c. c \<in> set chars) s"

definition intMode_of :: "string \<Rightarrow> IntMode" where
  "intMode_of mode =
     (let m = 0;
          m = (if ContainsAny mode ''dD'' then m OR Dec else m);
          m = (if ContainsAny mode ''hH'' then m OR Hex else m);
          m = (if ContainsAny mode ''oO'' then m OR Oct else m)
      in m)"

definition typeModes :: "(gtype \<times> IntMode) list" where
  "typeModes =
     [(intT, Dec OR Hex), (int8T, Dec OR Hex), (int16T, Dec OR Hex),
      (int32T, Dec OR Hex), (int64T, Dec OR Hex),
      (uintT, Dec OR Hex), (uint8T, Dec OR Hex), (uint16T, Dec OR Hex),
      (uint32T, Dec OR Hex), (uint64T, Dec OR Hex),
      (bigInt, Dec OR Hex)]"

definition intModeDefault :: "gtype \<Rightarrow> IntMode" where
  "intModeDefault t =
     (case map_of typeModes t of
        Some m \<Rightarrow> m
      | None \<Rightarrow> Dec OR Hex OR Oct)"

definition intSetter :: setter where
  "intSetter E T d blank val t =
     (if blank then Inr (d, Some errBlankUnsupported)
      else let mode = intMode_of (intMode t);
               mode = (if mode = 0 then intModeDefault T else mode)
           in (case ParseInt E T d val mode of
                 (d', err) \<Rightarrow> Inr (d', map_option errorString err)))"

definition stringSetter :: setter where
  "stringSetter E T d blank val t =
     (if blank then Inr (d, Some errBlankUnsupported)
      else if T \<noteq> stringT then Inr (d, Some errUnsupportedType)
      else Inr (VString val, None))"

definition kindSetters :: "(kind \<times> setter) list" where
  "kindSetters =
     [(String, stringSetter), (Bool, boolSetter),
      (IntK, intSetter), (Int8, intSetter), (Int16, intSetter),
      (Int32, intSetter), (Int64, intSetter),
      (Uint, intSetter), (Uint8, intSetter), (Uint16, intSetter),
      (Uint32, intSetter), (Uint64, intSetter), (Uintptr, intSetter)]"

definition typeSetters :: "(gtype \<times> setter) list" where
  "typeSetters = [(bigInt, intSetter)]"

definition typeSetter :: setter where
  "typeSetter E T d blank val tt =
     (case map_of typeSetters T of
        None \<Rightarrow> Inr (d, Some errUnsupportedType)
      | Some setter \<Rightarrow> setter E T d blank val tt)"

definition kindSetter :: setter where
  "kindSetter E T d blank val tt =
     (case map_of kindSetters (Kind T) of
        None \<Rightarrow> Inr (d, Some errUnsupportedType)
      | Some setter \<Rightarrow> setter E T d blank val tt)"

definition scanSetter :: setter where
  "scanSetter E T d blank val tt =
     (if blank then Inr (d, Some errBlankUnsupported)
      else (case ScanFully E T d val of
              (d', err) \<Rightarrow> Inr (d', map_option errorString err)))"

definition setters :: "setter list" where
  "setters = [typeSetter, textUnmarshalerSetter, kindSetter, scanSetter]"

text \<open>
  The loop of \<open>set\<close> over the setters. \<open>err\<close> is the error of the last setter
  tried. The answer is the destination's value and \<open>None\<close> when a setter
  succeeded, or the message of the \<open>locErr\<close> that \<open>set\<close> returns. After a loop
  over no setter at all \<open>err\<close> is nil, and \<open>err.Error()\<close> panics.
\<close>

fun runSetters ::
  "setter list \<Rightarrow> env \<Rightarrow> gtype \<Rightarrow> val \<Rightarrow> bool \<Rightarrow> string \<Rightarrow> tag \<Rightarrow> error option
     \<Rightarrow> abort + val \<times> string option" where
  "runSetters [] E T d blank val t err =
     (case err of
        None \<Rightarrow> Inl (Panic ''nil pointer dereference'')
      | Some e \<Rightarrow> Inr (d, Some (Error e)))"
| "runSetters (s # ss) E T d blank val t err =
     (case s E T d blank val t of
        Inl a \<Rightarrow> Inl a
      | Inr (d', None) \<Rightarrow> Inr (d', None)
      | Inr (d', Some e) \<Rightarrow>
          if e \<noteq> errUnsupportedType then Inr (d', Some (Error e))
          else runSetters ss E T d' blank val t (Some e))"

section \<open>Sequencing\<close>

definition andThen :: "abort + 'a \<Rightarrow> ('a \<Rightarrow> abort + 'b) \<Rightarrow> abort + 'b" where
  "andThen m f = (case m of Inl a \<Rightarrow> Inl a | Inr x \<Rightarrow> f x)"

text \<open>\<open>IsNil\<close> and the pointee of a pointer, the table of a map.\<close>

definition loadPtr :: "state \<Rightarrow> place \<Rightarrow> abort + place option" where
  "loadPtr s pl =
     andThen (load s pl) (\<lambda>v. case v of VPtr po \<Rightarrow> Inr po | _ \<Rightarrow> Inl IllTyped)"

definition loadMap :: "state \<Rightarrow> place \<Rightarrow> abort + addr option" where
  "loadMap s pl =
     andThen (load s pl) (\<lambda>v. case v of VMap mo \<Rightarrow> Inr mo | _ \<Rightarrow> Inl IllTyped)"

definition MapIndex :: "state \<Rightarrow> addr \<Rightarrow> string \<Rightarrow> abort + val option" where
  "MapIndex s a k = (if a < length (tbls s) then Inr ((tbls s ! a) k) else Inl IllTyped)"

definition SetMapIndex :: "state \<Rightarrow> addr \<Rightarrow> string \<Rightarrow> val \<Rightarrow> abort + state" where
  "SetMapIndex s a k v =
     (if a < length (tbls s) then Inr (s\<lparr>tbls := (tbls s)[a := (tbls s ! a)(k \<mapsto> v)]\<rparr>)
      else Inl IllTyped)"

section \<open>Extra data\<close>

text \<open>The loop of \<open>findExtraDataField\<close>: \<open>i\<close> counts the fields, \<open>value\<close> is the
  last field found.\<close>

fun findExtraDataLoop :: "nat \<Rightarrow> field list \<Rightarrow> (nat \<times> field) option \<Rightarrow> (nat \<times> field) option" where
  "findExtraDataLoop i [] value = value"
| "findExtraDataLoop i (f # fs) value =
     findExtraDataLoop (Suc i) fs (if ftag f = ''extra_values'' then Some (i, f) else value)"

definition findExtraDataField :: "field list \<Rightarrow> (nat \<times> field) option" where
  "findExtraDataField fs = findExtraDataLoop 0 fs None"

definition noLoc :: loc where
  "noLoc = \<lparr>loc_section = [], loc_subsection = None, loc_variable = None\<rparr>"

text \<open>
  \<open>vSect\<close> is the struct at place \<open>pS\<close> with the fields \<open>fs\<close>. Writing to a field
  that is not exported panics in \<open>reflect\<close>. The message of the last error
  leaves the type's name out.
\<close>

definition setExtraDataInSection ::
  "field list \<Rightarrow> place \<Rightarrow> string \<Rightarrow> string \<Rightarrow> loc \<Rightarrow> state \<Rightarrow> abort + (bool \<times> diag) \<times> state" where
  "setExtraDataInSection fs pS key value l s =
     (case findExtraDataField fs of
        None \<Rightarrow> Inr ((True, extraData l), s)
      | Some (i, f) \<Rightarrow>
          if ftype f = MapOf [] stringT stringT then
            andThen (loadMap s (field_of pS i)) (\<lambda>mo.
              if \<not> fexported f then
                Inl (Panic ''reflect: value obtained using unexported field'')
              else case mo of
                None \<Rightarrow>
                  (case allocTable s [key \<mapsto> VString value] of
                     (a, s1) \<Rightarrow>
                       andThen (store s1 (field_of pS i) (VMap (Some a))) (\<lambda>s2.
                         Inr ((False, extraData noLoc), s2)))
              | Some a \<Rightarrow>
                  andThen (SetMapIndex s a key (VString value)) (\<lambda>s1.
                    Inr ((False, extraData noLoc), s1)))
          else if ftype f = MapOf [] stringT (SliceOf [] stringT) then
            andThen (loadMap s (field_of pS i)) (\<lambda>mo.
              if \<not> fexported f then
                Inl (Panic ''reflect: value obtained using unexported field'')
              else case mo of
                None \<Rightarrow>
                  (case allocTable s [key \<mapsto> VSlice [VString value]] of
                     (a, s1) \<Rightarrow>
                       andThen (store s1 (field_of pS i) (VMap (Some a))) (\<lambda>s2.
                         Inr ((False, extraData noLoc), s2)))
              | Some a \<Rightarrow>
                  andThen (MapIndex s a key) (\<lambda>v.
                    case v of
                      Some (VSlice vs) \<Rightarrow>
                        andThen (SetMapIndex s a key (VSlice (vs @ [VString value]))) (\<lambda>s1.
                          Inr ((False, extraData noLoc), s1))
                    | Some _ \<Rightarrow> Inl IllTyped
                    | None \<Rightarrow>
                        andThen (SetMapIndex s a key (VSlice [VString value])) (\<lambda>s1.
                          Inr ((False, extraData noLoc), s1))))
          else
            Inr ((True, otherError
              ''extra data field must be of type map[string]string or map[string][]string''), s))"

section \<open>New subsection values\<close>

text \<open>
  The decoder builds what it read into storage of its own: every pointer of the
  tree gets a fresh cell, every map a fresh table.
\<close>

fun materialize :: "tree \<Rightarrow> state \<Rightarrow> val \<times> state"
  and materializeList :: "tree list \<Rightarrow> state \<Rightarrow> val list \<times> state"
  and materializeMap :: "(string \<times> tree) list \<Rightarrow> state \<Rightarrow> (string \<rightharpoonup> val) \<times> state" where
  "materialize (TBool b) s = (VBool b, s)"
| "materialize (TInt i) s = (VInt i, s)"
| "materialize (TString x) s = (VString x, s)"
| "materialize (TOther x) s = (VOther x, s)"
| "materialize (TPtr None) s = (VPtr None, s)"
| "materialize (TPtr (Some t)) s =
     (case materialize t s of
        (v, s1) \<Rightarrow> (case alloc s1 v of (p, s2) \<Rightarrow> (VPtr (Some p), s2)))"
| "materialize (TSlice ts) s =
     (case materializeList ts s of (vs, s1) \<Rightarrow> (VSlice vs, s1))"
| "materialize (TMap None) s = (VMap None, s)"
| "materialize (TMap (Some kvs)) s =
     (case materializeMap kvs s of
        (m, s1) \<Rightarrow> (case allocTable s1 m of (a, s2) \<Rightarrow> (VMap (Some a), s2)))"
| "materialize (TStruct ts) s =
     (case materializeList ts s of (vs, s1) \<Rightarrow> (VStruct vs, s1))"
| "materializeList [] s = ([], s)"
| "materializeList (t # ts) s =
     (case materialize t s of
        (v, s1) \<Rightarrow> (case materializeList ts s1 of (vs, s2) \<Rightarrow> (v # vs, s2)))"
| "materializeMap [] s = (Map.empty, s)"
| "materializeMap (kt # kvs) s =
     (case materialize (snd kt) s of
        (v, s1) \<Rightarrow> (case materializeMap kvs s1 of (m, s2) \<Rightarrow> ([fst kt \<mapsto> v] ++ m, s2)))"

text \<open>
  \<open>newValue\<close>: \<open>cT\<close> is the type of the schema struct and \<open>pC\<close> its place. The
  encoder reads the default field through the heap and writes bytes; the
  decoder reads the bytes into the new value \<open>pv\<close>.
\<close>

definition newValue ::
  "env \<Rightarrow> string \<Rightarrow> gtype \<Rightarrow> place \<Rightarrow> gtype \<Rightarrow> state \<Rightarrow> abort + (place \<times> diag option) \<times> state" where
  "newValue E sect cT pC vType s =
     (case alloc s (Zero vType) of
        (pv, s1) \<Rightarrow>
          andThen (fieldFold E cT (''default-'' @ sect)) (\<lambda>dfltField.
            case dfltField of
              None \<Rightarrow> Inr ((pv, None), s1)
            | Some (i, dT, dtag) \<Rightarrow>
                andThen (load s1 (field_of pC i)) (\<lambda>dv.
                  case GobEncode E dT (objs s1) (tbls s1) dv of
                    (b, eerr) \<Rightarrow>
                      andThen (Collect (coll s1) (map_option otherError eerr)) (\<lambda>(err, c2).
                        if err \<noteq> None then Inr ((pv, err), s1\<lparr>coll := c2\<rparr>)
                        else case GobDecode E b vType of
                          (dt, derr) \<Rightarrow>
                            andThen
                              (case dt of
                                 None \<Rightarrow> Inr (s1\<lparr>coll := c2\<rparr>)
                               | Some t \<Rightarrow>
                                   (case materialize t (s1\<lparr>coll := c2\<rparr>) of
                                      (v, s2) \<Rightarrow> store s2 pv v)) (\<lambda>s3.
                              andThen (Collect (coll s3) (map_option otherError derr)) (\<lambda>(err, c4).
                                Inr ((pv, err), s3\<lparr>coll := c4\<rparr>)))))))"

section \<open>Setting a variable\<close>

text \<open>It is a multi-value if unnamed slice type.\<close>

definition isMultiVal :: "gtype \<Rightarrow> bool" where
  "isMultiVal T \<longleftrightarrow>
     Name T = [] \<and> Kind T = Slice \<or>
     Name T = [] \<and> Kind T = Ptr \<and>
       (case T of PtrTo n e \<Rightarrow> Name e = [] \<and> Kind e = Slice | _ \<Rightarrow> False)"

text \<open>
  Lines 293 to 298 of \<open>set\<close>: a multi-valued variable behind a pointer is
  allocated when the pointer is nil, and \<open>vVar\<close> becomes the slice it points to.
\<close>

definition derefMulti :: "gtype \<Rightarrow> place \<Rightarrow> state \<Rightarrow> abort + (gtype \<times> place) \<times> state" where
  "derefMulti T pVar s =
     (case T of
        PtrTo n e \<Rightarrow>
          andThen (loadPtr s pVar) (\<lambda>po.
            case po of
              None \<Rightarrow>
                (case alloc s (Zero e) of
                   (p, s1) \<Rightarrow>
                     andThen (store s1 pVar (VPtr (Some p))) (\<lambda>s2. Inr ((e, p), s2)))
            | Some p \<Rightarrow> Inr ((e, p), s))
      | _ \<Rightarrow> Inl IllTyped)"

text \<open>
  Lines 303 to 307: \<open>vVal\<close> is the variable itself, or a new element of the
  slice's element type.
\<close>

definition newElem :: "bool \<Rightarrow> gtype \<Rightarrow> place \<Rightarrow> state \<Rightarrow> abort + (gtype \<times> place) \<times> state" where
  "newElem isMulti T pVar s =
     (if isMulti then
        (case T of
           SliceOf n e \<Rightarrow> (case alloc s (Zero e) of (p, s1) \<Rightarrow> Inr ((e, p), s1))
         | _ \<Rightarrow> Inl IllTyped)
      else Inr ((T, pVar), s))"

text \<open>
  Lines 308 to 319: \<open>vAddr\<close>, the address of the value to set, with the type it
  points to and \<open>isNew\<close>.
\<close>

definition destination ::
  "gtype \<Rightarrow> place \<Rightarrow> state \<Rightarrow> abort + (bool \<times> gtype \<times> place) \<times> state" where
  "destination VT pVal s =
     (let isDeref = (Name VT = [] \<and> Kind VT = Ptr) in
      if isDeref then
        (case VT of
           PtrTo n e \<Rightarrow>
             andThen (loadPtr s pVal) (\<lambda>po.
               case po of
                 None \<Rightarrow> (case alloc s (Zero e) of (p, s1) \<Rightarrow> Inr ((True, e, p), s1))
               | Some p \<Rightarrow> Inr ((False, e, p), s))
         | _ \<Rightarrow> Inl IllTyped)
      else Inr ((False, VT, pVal), s))"

text \<open>Lines 320 to 335: the setters write through \<open>vAddr\<close>.\<close>

definition convert ::
  "env \<Rightarrow> gtype \<Rightarrow> place \<Rightarrow> bool \<Rightarrow> string \<Rightarrow> tag \<Rightarrow> state \<Rightarrow> abort + string option \<times> state" where
  "convert E DT vAddr blank value t s =
     andThen (load s vAddr) (\<lambda>d.
       andThen (runSetters setters E DT d blank value t None) (\<lambda>(d', r).
         andThen (store s vAddr d') (\<lambda>s1. Inr (r, s1))))"

text \<open>\<open>reflect.Append\<close> of one element.\<close>

definition appendTo :: "place \<Rightarrow> place \<Rightarrow> state \<Rightarrow> abort + state" where
  "appendTo pVar pVal s =
     andThen (load s pVar) (\<lambda>v.
       case v of
         VSlice xs \<Rightarrow> andThen (load s pVal) (\<lambda>x. store s pVar (VSlice (xs @ [x])))
       | _ \<Rightarrow> Inl IllTyped)"

text \<open>
  Lines 303 to 342: the value is converted and, for a multi-valued variable,
  appended.
\<close>

definition setValue ::
  "env \<Rightarrow> bool \<Rightarrow> gtype \<Rightarrow> place \<Rightarrow> tag \<Rightarrow> loc \<Rightarrow> bool \<Rightarrow> string \<Rightarrow> state
     \<Rightarrow> abort + diag option \<times> state" where
  "setValue E isMulti T pVar t l blank value s1 =
     andThen (newElem isMulti T pVar s1) (\<lambda>((VT, pVal), s2).
       andThen (destination VT pVal s2) (\<lambda>((isNew, DT, vAddr), s3).
         andThen (convert E DT vAddr blank value t s3) (\<lambda>(r, s4).
           case r of
             Some msg \<Rightarrow> Inr (Some (locErr msg l), s4)
           | None \<Rightarrow>
               andThen (if isNew then store s4 pVal (VPtr (Some vAddr)) else Inr s4) (\<lambda>s5.
                 andThen (if isMulti then appendTo pVar pVal s5 else Inr s5) (\<lambda>s6.
                   Inr (None, s6))))))"

text \<open>Lines 290 to 343: the variable \<open>vVar\<close> of type \<open>T0\<close> at place \<open>pVar0\<close>.\<close>

definition setField ::
  "env \<Rightarrow> gtype \<Rightarrow> place \<Rightarrow> tag \<Rightarrow> loc \<Rightarrow> bool \<Rightarrow> string \<Rightarrow> state \<Rightarrow> abort + diag option \<times> state" where
  "setField E T0 pVar0 t l blank value s =
     (let isMulti = isMultiVal T0 in
      andThen (if isMulti \<and> Kind T0 = Ptr then derefMulti T0 pVar0 s
               else Inr ((T0, pVar0), s)) (\<lambda>((T, pVar), s1).
        if isMulti \<and> blank then
          andThen (store s1 pVar (Zero T)) (\<lambda>s2. Inr (None, s2))
        else setValue E isMulti T pVar t l blank value s1))"

text \<open>
  Lines 277 to 289, then \<open>setField\<close>: \<open>vSect\<close> is the struct of type \<open>sT\<close> at place
  \<open>pS\<close>, or the zero \<open>reflect.Value\<close> when \<open>pS\<close> is \<open>None\<close> (the element of a
  nil pointer).
\<close>

definition setVar ::
  "env \<Rightarrow> gtype \<Rightarrow> place option \<Rightarrow> loc \<Rightarrow> string \<Rightarrow> bool \<Rightarrow> string \<Rightarrow> state
     \<Rightarrow> abort + diag option \<times> state" where
  "setVar E sT pS l name blank value s =
     (if name = [] then Inr (None, s)
      else case pS of
        None \<Rightarrow> Inl (Panic ''reflect: call of reflect.Value.Type on zero Value'')
      | Some pl \<Rightarrow>
          andThen (fieldFold E sT name) (\<lambda>vVar.
            let l = l\<lparr>loc_variable := Some name\<rparr> in
            case vVar of
              None \<Rightarrow>
                (case sT of
                   StructOf n fs \<Rightarrow>
                     andThen (setExtraDataInSection fs pl name value l s) (\<lambda>((ok, err), s1).
                       if ok then
                         andThen (Collect (coll s1) (Some err)) (\<lambda>(r, c).
                           Inr (r, s1\<lparr>coll := c\<rparr>))
                       else Inr (None, s1))
                 | _ \<Rightarrow> Inl IllTyped)
            | Some (i, T, t) \<Rightarrow> setField E T (field_of pl i) t l blank value s))"

section \<open>\<open>set\<close>\<close>

text \<open>Lines 238 to 250: a section that is a map of strings.\<close>

definition setFlat ::
  "gtype \<Rightarrow> gtype \<Rightarrow> place \<Rightarrow> string \<Rightarrow> string \<Rightarrow> string \<Rightarrow> state \<Rightarrow> abort + diag option \<times> state" where
  "setFlat kT eT pSect sub name value s =
     andThen (loadMap s pSect) (\<lambda>mo.
       andThen (case mo of
                  None \<Rightarrow>
                    (case allocTable s Map.empty of
                       (a, s1) \<Rightarrow> andThen (store s1 pSect (VMap (Some a))) (\<lambda>s2. Inr (a, s2)))
                | Some a \<Rightarrow> Inr (a, s)) (\<lambda>(a, s2).
         if value \<noteq> [] then
           if \<not> directlyAssignable kT stringT \<or> \<not> directlyAssignable eT stringT then
             Inl (Panic ''reflect.Value.SetMapIndex: value of type string is not assignable'')
           else if sub \<noteq> [] then
             andThen (SetMapIndex s2 a (sub @ '' '' @ name) (VString value)) (\<lambda>s3. Inr (None, s3))
           else
             andThen (SetMapIndex s2 a name (VString value)) (\<lambda>s3. Inr (None, s3))
         else Inr (None, s2)))"

text \<open>
  Lines 257 to 270: a section that is a map of pointers to structs of type
  \<open>vType\<close>. The answer is the place of the subsection's struct, \<open>None\<close> for a nil
  pointer in the map, or the error of \<open>newValue\<close>.
\<close>

definition subsectionOf ::
  "env \<Rightarrow> gtype \<Rightarrow> place \<Rightarrow> gtype \<Rightarrow> gtype \<Rightarrow> place \<Rightarrow> string \<Rightarrow> string \<Rightarrow> state
     \<Rightarrow> abort + (diag + place option) \<times> state" where
  "subsectionOf E cT pC kT vType pSect sect sub s =
     andThen (loadMap s pSect) (\<lambda>mo.
       andThen (case mo of
                  None \<Rightarrow>
                    (case allocTable s Map.empty of
                       (a, s1) \<Rightarrow> andThen (store s1 pSect (VMap (Some a))) (\<lambda>s2. Inr (a, s2)))
                | Some a \<Rightarrow> Inr (a, s)) (\<lambda>(a, s2).
         if \<not> directlyAssignable kT stringT then
           Inl (Panic ''reflect.Value.MapIndex: value of type string is not assignable'')
         else
           andThen (MapIndex s2 a sub) (\<lambda>pv.
             case pv of
               None \<Rightarrow>
                 andThen (newValue E sect cT pC vType s2) (\<lambda>((pv, err), s3).
                   case err of
                     Some e \<Rightarrow> Inr (Inl e, s3)
                   | None \<Rightarrow>
                       andThen (SetMapIndex s3 a sub (VPtr (Some pv))) (\<lambda>s4.
                         Inr (Inr (Some pv), s4)))
             | Some (VPtr po) \<Rightarrow> Inr (Inr po, s2)
             | Some _ \<Rightarrow> Inl IllTyped)))"

text \<open>
  \<open>set\<close>: \<open>cfgT\<close> and \<open>cfg\<close> are the dynamic type and the value of the interface
  \<open>cfg\<close>; the collector \<open>c\<close> is part of the state.
\<close>

definition set_cfg ::
  "env \<Rightarrow> gtype \<Rightarrow> val \<Rightarrow> string \<Rightarrow> string \<Rightarrow> string \<Rightarrow> bool \<Rightarrow> string \<Rightarrow> bool \<Rightarrow> state
     \<Rightarrow> abort + diag option \<times> state" where
  "set_cfg E cfgT cfg sect sub name blank value subsectPass s =
     (case (cfgT, cfg) of
        (PtrTo pn cT, VPtr (Some pC)) \<Rightarrow>
          if Kind cT \<noteq> Struct then Inl (Panic ''config must be a pointer to a struct'')
          else
            andThen (fieldFold E cT sect) (\<lambda>vSect.
              let l = \<lparr>loc_section = sect, loc_subsection = None, loc_variable = None\<rparr> in
              case vSect of
                None \<Rightarrow>
                  andThen (Collect (coll s) (Some (extraData l))) (\<lambda>(r, c).
                    Inr (r, s\<lparr>coll := c\<rparr>))
              | Some (i, vst, stag) \<Rightarrow>
                  let isSubsect = (Kind vst = Map) in
                  if subsectPass \<noteq> isSubsect then Inr (None, s)
                  else if isSubsect then
                    (let l = l\<lparr>loc_subsection := Some sub\<rparr> in
                     case vst of
                       MapOf mn kT eT \<Rightarrow>
                         if Kind kT = String \<and> Kind eT = String then
                           setFlat kT eT (field_of pC i) sub name value s
                         else
                           (case (if Kind kT \<noteq> String then None
                                  else case eT of
                                         PtrTo en vType \<Rightarrow>
                                           if Kind vType \<noteq> Struct then None else Some vType
                                       | _ \<Rightarrow> None) of
                              None \<Rightarrow>
                                Inl (Panic (''map field for section must have string keys and '' @
                                  '' pointer-to-struct or string values''))
                            | Some vType \<Rightarrow>
                                andThen
                                  (subsectionOf E cT pC kT vType (field_of pC i) sect sub s)
                                  (\<lambda>(r, s1).
                                    case r of
                                      Inl err \<Rightarrow> Inr (Some err, s1)
                                    | Inr pS \<Rightarrow> setVar E vType pS l name blank value s1))
                     | _ \<Rightarrow> Inl IllTyped)
                  else if Kind vst \<noteq> Struct then
                    Inl (Panic ''field for section must be a map or a struct'')
                  else if sub \<noteq> [] then
                    andThen (Collect (coll s) (Some (extraData l))) (\<lambda>(r, c).
                      Inr (r, s\<lparr>coll := c\<rparr>))
                  else setVar E vst (Some (field_of pC i)) l name blank value s)
      | (PtrTo pn cT, VPtr None) \<Rightarrow> Inl (Panic ''config must be a pointer to a struct'')
      | (PtrTo pn cT, _) \<Rightarrow> Inl IllTyped
      | _ \<Rightarrow> Inl (Panic ''config must be a pointer to a struct''))"

section \<open>The field resolver in the words of its description\<close>



section \<open>Multi-valued variables in the words of their description\<close>



section \<open>What a call may change\<close>

text \<open>The cells that the pointers in a value point to, and the tables of its
  maps; pointers are not followed.\<close>

fun ptrs :: "val \<Rightarrow> addr set" where
  "ptrs (VPtr (Some p)) = {fst p}"
| "ptrs (VSlice vs) = (\<Union>v \<in> set vs. ptrs v)"
| "ptrs (VStruct vs) = (\<Union>v \<in> set vs. ptrs v)"
| "ptrs v = {}"

fun tables :: "val \<Rightarrow> addr set" where
  "tables (VMap (Some a)) = {a}"
| "tables (VSlice vs) = (\<Union>v \<in> set vs. tables v)"
| "tables (VStruct vs) = (\<Union>v \<in> set vs. tables v)"
| "tables v = {}"

text \<open>
  From \<open>s\<close> to \<open>s'\<close>, of the first \<open>n\<close> cells only those in \<open>W\<close> and of the first
  \<open>m\<close> tables only those in \<open>Wt\<close> may have changed; none has gone.
\<close>

definition unchanged :: "nat \<Rightarrow> nat \<Rightarrow> addr set \<Rightarrow> addr set \<Rightarrow> state \<Rightarrow> state \<Rightarrow> bool" where
  "unchanged n m W Wt s s' \<longleftrightarrow>
     n \<le> length (objs s') \<and> m \<le> length (tbls s') \<and>
     (\<forall>c < n. c \<notin> W \<longrightarrow> objs s' ! c = objs s ! c) \<and>
     (\<forall>k < m. k \<notin> Wt \<longrightarrow> tbls s' ! k = tbls s ! k)"

text \<open>From \<open>s\<close> to \<open>s'\<close> cells and tables were added and nothing else changed.\<close>

definition grows :: "state \<Rightarrow> state \<Rightarrow> bool" where
  "grows s s' \<longleftrightarrow>
     (\<exists>ys. objs s' = objs s @ ys) \<and> (\<exists>zs. tbls s' = tbls s @ zs) \<and> coll s' = coll s"

section \<open>Example collaborators and schemas\<close>

text \<open>
  Collaborators for names and values in ASCII: folding of the letters A to Z, no
  letter without case, the boolean literals of package \<open>types\<close>, and an integer
  parser that answers with the bases it was given.
\<close>

definition asciiLower :: "char \<Rightarrow> char" where
  "asciiLower c =
     (case map_of (zip ''ABCDEFGHIJKLMNOPQRSTUVWXYZ'' ''abcdefghijklmnopqrstuvwxyz'') c of
        Some d \<Rightarrow> d
      | None \<Rightarrow> c)"

definition asciiEqualFold :: "string \<Rightarrow> string \<Rightarrow> bool" where
  "asciiEqualFold s t \<longleftrightarrow> map asciiLower s = map asciiLower t"

definition exampleParseBool :: "string \<Rightarrow> string + bool" where
  "exampleParseBool s =
     (if map asciiLower s \<in> set [''true'', ''yes'', ''on'', ''1''] then Inr True
      else if map asciiLower s \<in> set [''false'', ''no'', ''off'', ''0''] then Inr False
      else Inl ''failed to parse bool'')"

definition exampleEnv :: env where
  "exampleEnv =
     \<lparr>EqualFold = asciiEqualFold,
      CaselessLetter = (\<lambda>name. False),
      ParseBool = exampleParseBool,
      ParseInt = (\<lambda>T d val mode. (VInt (uint mode), None)),
      ScanFully = (\<lambda>T d val. (d, Some ''cannot scan'')),
      TextUnmarshaler = (\<lambda>T. None),
      GobEncode = (\<lambda>T os ts v. ([], Some ''gob: type not registered'')),
      GobDecode = (\<lambda>b T. (None, Some ''EOF''))\<rparr>"

text \<open>
  A schema: \<open>type Flag bool\<close>,
  \<open>type Core struct { Editor string; Bare Flag; Verbose bool; Limit *int; Paths []string; Extra int `gcfg:"extra_values"` }\<close>,
  \<open>type Remote struct { URL string; Fetch []string; Depth *int }\<close> and
  \<open>type Config struct { Core Core; Alias map[string]string; Remote map[string]*Remote; Default_Remote Remote }\<close>,
  with a \<open>Config\<close> of zero values in cell 0 and a collector for which only
  \<open>extraData\<close> is a warning.
\<close>

definition FlagT :: gtype where "FlagT = Basic ''Flag'' Bool"

definition CoreT :: gtype where
  "CoreT = StructOf ''Core''
     [Field ''Editor'' [] True stringT,
      Field ''Bare'' [] True FlagT,
      Field ''Verbose'' [] True boolT,
      Field ''Limit'' [] True (PtrTo [] intT),
      Field ''Paths'' [] True (SliceOf [] stringT),
      Field ''Extra'' ''extra_values'' True intT]"

definition RemoteT :: gtype where
  "RemoteT = StructOf ''Remote''
     [Field ''URL'' [] True stringT,
      Field ''Fetch'' [] True (SliceOf [] stringT),
      Field ''Depth'' [] True (PtrTo [] intT)]"

definition ConfigT :: gtype where
  "ConfigT = StructOf ''Config''
     [Field ''Core'' [] True CoreT,
      Field ''Alias'' [] True (MapOf [] stringT stringT),
      Field ''Remote'' [] True (MapOf [] stringT (PtrTo [] RemoteT)),
      Field ''Default_Remote'' [] True RemoteT]"

definition exampleCollector :: Collector where
  "exampleCollector =
     \<lparr>IsFatal = (\<lambda>e. case e of extraData l \<Rightarrow> False | _ \<Rightarrow> True),
      Warnings = [], Fatal = None, isDone = False\<rparr>"

definition exampleState :: state where
  "exampleState =
     \<lparr>objs = [VStruct
        [VStruct [VString [], VBool False, VBool False, VPtr None, VSlice [], VInt 0],
         VMap None, VMap None,
         VStruct [VString [], VSlice [], VPtr None]]],
      tbls = [], coll = exampleCollector\<rparr>"

text \<open>\<open>*Flag\<close> with an \<open>UnmarshalText\<close> method that reads \<open>on\<close> as true.\<close>

definition flagEnv :: env where
  "flagEnv = exampleEnv
     \<lparr>TextUnmarshaler :=
        (\<lambda>T. if T = FlagT then Some (\<lambda>d text. (VBool (text = ''on''), None)) else None)\<rparr>"

text \<open>A gob encoding that succeeds, and decodes a \<open>Remote\<close> with a depth of 1.\<close>

definition gobEnv :: env where
  "gobEnv = exampleEnv
     \<lparr>GobEncode := (\<lambda>T os ts v. (''gob'', None)),
      GobDecode := (\<lambda>b T. (Some (TStruct [TString ''origin'', TSlice [], TPtr (Some (TInt 1))]), None))\<rparr>"



section \<open>Field resolution: no match, one match, several matches\<close>















section \<open>Integer bases\<close>

lemma foldl_keeps_intMode:
  "\<forall>seg \<in> set segs. \<not> HasPrefix seg ''int='' \<Longrightarrow>
   foldl (\<lambda>t tse. if HasPrefix tse ''int='' then t\<lparr>intMode := drop (length ''int='') tse\<rparr> else t)
     t0 segs = t0"
  by (induction segs arbitrary: t0) auto

lemma newTag_no_directive:
  "\<forall>seg \<in> set (tl (Split ts CHR '','')). \<not> HasPrefix seg ''int='' \<Longrightarrow> intMode (newTag ts) = []"
  by (simp add: newTag_def Let_def foldl_keeps_intMode)

lemma intMode_of_Nil: "intMode_of [] = 0"
  by (simp add: intMode_of_def ContainsAny_def)

lemma kindSetters_int: "isIntKind k \<Longrightarrow> map_of kindSetters k = Some intSetter"
  by (cases k) (simp_all add: kindSetters_def)

lemma intModeDefault_cases:
  "intModeDefault T =
     (if T \<in> set [intT, int8T, int16T, int32T, int64T,
                  uintT, uint8T, uint16T, uint32T, uint64T, bigInt]
      then Dec OR Hex else Dec OR Hex OR Oct)"
proof (cases "T \<in> set [intT, int8T, int16T, int32T, int64T,
                       uintT, uint8T, uint16T, uint32T, uint64T, bigInt]")
  case True
  then consider "T = intT" | "T = int8T" | "T = int16T" | "T = int32T" | "T = int64T"
    | "T = uintT" | "T = uint8T" | "T = uint16T" | "T = uint32T" | "T = uint64T" | "T = bigInt"
    by auto
  then have "map_of typeModes T = Some (Dec OR Hex)"
    by cases (simp_all add: typeModes_def)
  then show ?thesis using True by (simp add: intModeDefault_def del: set_simps)
next
  case False
  then have "map_of typeModes T = None"
    by (simp add: typeModes_def)
  then show ?thesis using False by (simp add: intModeDefault_def del: set_simps)
qed

text \<open>
  C1, as the code has it. For every destination of an integer kind, or of type
  \<open>big.Int\<close>, whose tag has no \<open>int=\<close> segment, the converter that the chain
  reaches (the exact-type converter for \<open>big.Int\<close>, the kind-based one otherwise)
  hands the text to the integer parser with exactly the bases decimal and
  hexadecimal when the type is one of \<open>int\<close>, \<open>int8\<close>, \<open>int16\<close>, \<open>int32\<close>, \<open>int64\<close>,
  \<open>uint\<close>, \<open>uint8\<close>, \<open>uint16\<close>, \<open>uint32\<close>, \<open>uint64\<close> and \<open>big.Int\<close>, and with
  exactly decimal, hexadecimal and octal for every other type (\<open>uintptr\<close>, defined
  integer types); what the parser stores and the error it reports are the
  converter's.
\<close>

theorem intSetter_default_bases:
  assumes "\<forall>seg \<in> set (tl (Split ts CHR '','')). \<not> HasPrefix seg ''int=''"
    and "isIntKind (Kind T) \<or> T = bigInt"
  shows "(if T = bigInt then typeSetter E T d False val (newTag ts)
          else kindSetter E T d False val (newTag ts)) =
         (case ParseInt E T d val
                 (if T \<in> set [intT, int8T, int16T, int32T, int64T,
                              uintT, uint8T, uint16T, uint32T, uint64T, bigInt]
                  then Dec OR Hex else Dec OR Hex OR Oct) of
            (d', err) \<Rightarrow> Inr (d', map_option errorString err))"
proof -
  have m: "intMode_of (intMode (newTag ts)) = 0"
    using newTag_no_directive[OF assms(1)] by (simp add: intMode_of_Nil)
  have i: "intSetter E T d False val (newTag ts) =
         (case ParseInt E T d val (intModeDefault T) of
            (d', err) \<Rightarrow> Inr (d', map_option errorString err))"
    by (simp add: intSetter_def m)
  show ?thesis
  proof (cases "T = bigInt")
    case True
    then show ?thesis
      using i by (simp add: typeSetter_def typeSetters_def intModeDefault_cases)
  next
    case False
    then have "isIntKind (Kind T)" using assms(2) by simp
    then show ?thesis
      using i False by (simp add: kindSetter_def kindSetters_int intModeDefault_cases del: set_simps)
  qed
qed

text \<open>A field of type \<open>uintptr\<close> tagged \<open>mask\<close>: the parser is given all three
  bases, which the example parser shows as 7.\<close>

theorem intSetter_default_bases_witness:
  "kindSetter exampleEnv uintptrT (VInt 0) False ''052'' (newTag ''mask'') = Inr (VInt 7, None)"
  using intSetter_default_bases [of "''mask''" uintptrT exampleEnv "VInt 0" "''052''"]
  by (simp add: HasPrefix_def uintptrT_def intT_def int8T_def int16T_def int32T_def int64T_def
      uintT_def uint8T_def uint16T_def uint32T_def uint64T_def bigInt_def
      exampleEnv_def Dec_def Hex_def Oct_def)

text \<open>C1 as stated fails: the platform-width \<open>int\<close> and the arbitrary-precision
  \<open>big.Int\<close> get decimal and hexadecimal only, without octal.\<close>

theorem intModeDefault_counterexample:
  "intModeDefault intT = Dec OR Hex \<and> intModeDefault bigInt = Dec OR Hex \<and>
   Dec OR Hex \<noteq> Dec OR Hex OR Oct"
  by (simp add: intModeDefault_def typeModes_def Dec_def Hex_def Oct_def)

section \<open>The chain of setters\<close>

lemma runSetters_skip:
  assumes "\<forall>u \<in> set pre. u E T d blank val t = Inr (d, Some errUnsupportedType)" and "pre \<noteq> []"
  shows "runSetters (pre @ post) E T d blank val t err =
         runSetters post E T d blank val t (Some errUnsupportedType)"
  using assms
proof (induction pre arbitrary: err)
  case Nil
  then show ?case by simp
next
  case (Cons s pre)
  then show ?case by (cases "pre = []") auto
qed

lemma runSetters_prefix:
  assumes "\<forall>u \<in> set pre. u E T d blank val t = Inr (d, Some errUnsupportedType)"
  shows "runSetters (pre @ s # post) E T d blank val t err =
         runSetters (s # post) E T d blank val t (if pre = [] then err else Some errUnsupportedType)"
  using runSetters_skip[OF assms, of "s # post" err] by (cases "pre = []") simp_all

text \<open>
  C4. The chain is the list exact-type, text-unmarshal, kind-based, generic-scan,
  tried in that order. After converters that report "unsupported type", the
  first converter that succeeds ends the chain with its result and the first
  that reports another error ends it with that error, whatever converters
  follow; when every converter reports "unsupported type", the chain fails with
  that error.
\<close>

theorem setters_chain:
  "setters = [typeSetter, textUnmarshalerSetter, kindSetter, scanSetter] \<and>
   (\<forall>pre s post d d' err.
      (\<forall>u \<in> set pre. u E T d blank val t = Inr (d, Some errUnsupportedType)) \<longrightarrow>
      s E T d blank val t = Inr (d', None) \<longrightarrow>
      runSetters (pre @ s # post) E T d blank val t err = Inr (d', None)) \<and>
   (\<forall>pre s post d d' e err.
      (\<forall>u \<in> set pre. u E T d blank val t = Inr (d, Some errUnsupportedType)) \<longrightarrow>
      s E T d blank val t = Inr (d', Some e) \<longrightarrow> e \<noteq> errUnsupportedType \<longrightarrow>
      runSetters (pre @ s # post) E T d blank val t err = Inr (d', Some (Error e))) \<and>
   (\<forall>pre d err.
      pre \<noteq> [] \<longrightarrow>
      (\<forall>u \<in> set pre. u E T d blank val t = Inr (d, Some errUnsupportedType)) \<longrightarrow>
      runSetters pre E T d blank val t err = Inr (d, Some (Error errUnsupportedType)))"
proof (intro conjI allI impI)
  show "setters = [typeSetter, textUnmarshalerSetter, kindSetter, scanSetter]"
    by (simp add: setters_def)
next
  fix pre :: "setter list" and s :: setter and post d d' err
  assume "\<forall>u \<in> set pre. u E T d blank val t = Inr (d, Some errUnsupportedType)"
    and "s E T d blank val t = Inr (d', None)"
  then show "runSetters (pre @ s # post) E T d blank val t err = Inr (d', None)"
    by (simp add: runSetters_prefix)
next
  fix pre :: "setter list" and s :: setter and post d d' e err
  assume "\<forall>u \<in> set pre. u E T d blank val t = Inr (d, Some errUnsupportedType)"
    and "s E T d blank val t = Inr (d', Some e)" and "e \<noteq> errUnsupportedType"
  then show "runSetters (pre @ s # post) E T d blank val t err = Inr (d', Some (Error e))"
    by (simp add: runSetters_prefix)
next
  fix pre :: "setter list" and d err
  assume "pre \<noteq> []"
    and "\<forall>u \<in> set pre. u E T d blank val t = Inr (d, Some errUnsupportedType)"
  then show "runSetters pre E T d blank val t err = Inr (d, Some (Error errUnsupportedType))"
    using runSetters_skip[of pre E T d blank val t "[]" err] by simp
qed

text \<open>A blank value for a \<open>bool\<close>: the first two converters report "unsupported
  type", the kind-based converter succeeds and the generic scan is not tried.\<close>

theorem setters_chain_witness:
  "runSetters setters exampleEnv boolT (VBool False) True [] (newTag []) None = Inr (VBool True, None)"
proof -
  have pre: "\<forall>u \<in> set [typeSetter, textUnmarshalerSetter].
       u exampleEnv boolT (VBool False) True [] (newTag []) = Inr (VBool False, Some errUnsupportedType)"
    by (simp add: typeSetter_def typeSetters_def textUnmarshalerSetter_def exampleEnv_def
        boolT_def bigInt_def)
  have s: "kindSetter exampleEnv boolT (VBool False) True [] (newTag []) = Inr (VBool True, None)"
    by (simp add: kindSetter_def kindSetters_def boolSetter_def boolT_def directlyAssignable_def)
  have "runSetters ([typeSetter, textUnmarshalerSetter] @ kindSetter # [scanSetter])
          exampleEnv boolT (VBool False) True [] (newTag []) None = Inr (VBool True, None)"
    using setters_chain [of exampleEnv boolT True "[]" "newTag []"] pre s by blast
  then show ?thesis by (simp add: setters_def)
qed

section \<open>Heap lemmas\<close>

lemma andThen_Inr [simp]: "andThen (Inr x) f = f x"
  by (simp add: andThen_def)

lemma andThen_Inl [simp]: "andThen (Inl a) f = Inl a"
  by (simp add: andThen_def)


lemma put_get_same: "put_at v p w = Some c \<Longrightarrow> get_at c p = Some w"
  by (induction v p w arbitrary: c rule: put_at.induct) (auto split: if_splits)

lemma get_put_defined: "get_at v p = Some u \<Longrightarrow> \<exists>c. put_at v p w = Some c"
  by (induction v p arbitrary: u rule: get_at.induct) (auto split: if_splits)

lemma put_get_id: "get_at v p = Some u \<Longrightarrow> put_at v p u = Some v"
  by (induction v p arbitrary: u rule: get_at.induct) (auto split: if_splits simp: list_update_same_conv)

lemma load_store_same: "store s pl w = Inr s' \<Longrightarrow> load s' pl = Inr w"
  by (auto simp: store_def load_def put_get_same split: if_splits option.splits)


lemma store_defined: "load s pl = Inr u \<Longrightarrow> \<exists>s'. store s pl w = Inr s'"
  using get_put_defined[of "objs s ! fst pl" "snd pl" u w]
  by (auto simp: store_def load_def split: if_splits option.splits)

lemma store_same_value: "load s pl = Inr u \<Longrightarrow> store s pl u = Inr s"
  using put_get_id[of "objs s ! fst pl" "snd pl" u]
  by (auto simp: store_def load_def split: if_splits option.splits)

lemma store_frame:
  "store s pl w = Inr s' \<Longrightarrow>
   length (objs s') = length (objs s) \<and> tbls s' = tbls s \<and> coll s' = coll s \<and>
   fst pl < length (objs s) \<and> (\<forall>a. a \<noteq> fst pl \<longrightarrow> objs s' ! a = objs s ! a)"
  by (auto simp: store_def split: if_splits option.splits)

lemma load_bound: "load s pl = Inr v \<Longrightarrow> fst pl < length (objs s)"
  by (auto simp: load_def split: if_splits)

lemma load_alloc_old:
  "fst pl < length (objs s) \<Longrightarrow> load (snd (alloc s v)) pl = load s pl"
  by (simp add: alloc_def load_def nth_append)

lemma load_alloc_new: "load (snd (alloc s v)) (fst (alloc s v)) = Inr v"
  by (simp add: alloc_def load_def)

section \<open>Booleans\<close>

lemma bool_kind_chain:
  assumes "Kind T = Bool" and "TextUnmarshaler E T = None"
  shows "runSetters setters E T d blank value t None =
         (if blank then
            (if directlyAssignable T boolT then Inr (VBool True, None)
             else Inl (Panic ''reflect.Set: value of type bool is not assignable''))
          else (case ParseBool E value of
                  Inr b \<Rightarrow>
                    (if directlyAssignable T boolT then Inr (VBool b, None)
                     else Inl (Panic ''reflect.Set: value of type bool is not assignable''))
                | Inl m \<Rightarrow> Inr (d, Some m)))"
proof -
  have "T \<noteq> bigInt" using assms(1) by (auto simp: bigInt_def)
  then have ts: "typeSetter E T d blank value t = Inr (d, Some errUnsupportedType)"
    by (simp add: typeSetter_def typeSetters_def)
  have tu: "textUnmarshalerSetter E T d blank value t = Inr (d, Some errUnsupportedType)"
    using assms(2) by (simp add: textUnmarshalerSetter_def)
  have ks: "kindSetter E T d blank value t = boolSetter E T d blank value t"
    using assms(1) by (simp add: kindSetter_def kindSetters_def)
  show ?thesis
    by (simp add: setters_def ts tu ks boolSetter_def split: sum.splits)
qed

lemma destination_plain:
  assumes "\<not> (Name VT = [] \<and> Kind VT = Ptr)"
  shows "destination VT pVal s = Inr ((False, VT, pVal), s)"
  using assms by (auto simp: destination_def)

lemma setField_single:
  assumes "\<not> isMultiVal T" and "\<not> (Name T = [] \<and> Kind T = Ptr)"
  shows "setField E T pVar t l blank value s =
         andThen (convert E T pVar blank value t s) (\<lambda>(r, s4).
           case r of Some msg \<Rightarrow> Inr (Some (locErr msg l), s4) | None \<Rightarrow> Inr (None, s4))"
  using assms(1)
  by (simp add: setField_def setValue_def newElem_def destination_plain[OF assms(2)]
      cong: option.case_cong sum.case_cong)

lemma bool_kind_single:
  "Kind T = Bool \<Longrightarrow> \<not> isMultiVal T \<and> \<not> (Name T = [] \<and> Kind T = Ptr)"
  by (simp add: isMultiVal_def)

lemma boolT_assignable: "directlyAssignable boolT boolT"
  by (simp add: directlyAssignable_def)

text \<open>
  C8, as the code has it. For every destination field of boolean kind whose
  type has no text-unmarshal method: when the type is the predeclared \<open>bool\<close>,
  a blank assignment stores \<open>true\<close> in the field and changes nothing else, and a
  value that the boolean parser reads as \<open>b\<close> (as it reads \<open>false\<close> as false)
  stores \<open>b\<close>; for every such type, a value that the parser rejects makes \<open>set\<close>
  return the data error \<open>locErr\<close> with the parser's message and the variable's
  location, with the state as it was and no panic.
\<close>

theorem bool_field:
  assumes "Kind T = Bool" and "TextUnmarshaler E T = None" and "load s pVar = Inr v"
  shows "(T = boolT \<longrightarrow>
            (\<exists>s'. store s pVar (VBool True) = Inr s' \<and>
                  setField E T pVar t l True value s = Inr (None, s')) \<and>
            (\<forall>b. ParseBool E value = Inr b \<longrightarrow>
               (\<exists>s'. store s pVar (VBool b) = Inr s' \<and>
                     setField E T pVar t l False value s = Inr (None, s')))) \<and>
         (\<forall>m. ParseBool E value = Inl m \<longrightarrow>
            setField E T pVar t l False value s = Inr (Some (locErr m l), s))"
proof (intro conjI allI impI)
  assume T: "T = boolT"
  obtain s' where "store s pVar (VBool True) = Inr s'"
    using store_defined[OF assms(3)] by blast
  then show "\<exists>s'. store s pVar (VBool True) = Inr s' \<and>
               setField E T pVar t l True value s = Inr (None, s')"
    using assms T
    by (simp add: setField_single bool_kind_single convert_def bool_kind_chain boolT_assignable)
next
  fix b
  assume T: "T = boolT" and b: "ParseBool E value = Inr b"
  obtain s' where "store s pVar (VBool b) = Inr s'"
    using store_defined[OF assms(3)] by blast
  then show "\<exists>s'. store s pVar (VBool b) = Inr s' \<and>
                  setField E T pVar t l False value s = Inr (None, s')"
    using assms T b
    by (simp add: setField_single bool_kind_single convert_def bool_kind_chain boolT_assignable)
next
  fix m
  assume "ParseBool E value = Inl m"
  then show "setField E T pVar t l False value s = Inr (Some (locErr m l), s)"
    using assms store_same_value[OF assms(3)]
    by (simp add: setField_single bool_kind_single convert_def bool_kind_chain)
qed

lemmas example_defs =
  ConfigT_def CoreT_def RemoteT_def FlagT_def exampleState_def exampleCollector_def
  exampleEnv_def flagEnv_def gobEnv_def asciiEqualFold_def asciiLower_def exampleParseBool_def
  stringT_def boolT_def intT_def bigInt_def

lemmas engine_defs =
  set_cfg_def fieldFold_def FieldByNameFunc_def fieldMatch_def foldedName_def newTag_def HasPrefix_def
  setVar_def setField_def setValue_def isMultiVal_def derefMulti_def newElem_def destination_def convert_def
  appendTo_def setters_def typeSetter_def typeSetters_def textUnmarshalerSetter_def
  kindSetter_def kindSetters_def boolSetter_def stringSetter_def intSetter_def scanSetter_def
  directlyAssignable_def field_of_def load_def store_def loadPtr_def loadMap_def alloc_def
  allocTable_def MapIndex_def SetMapIndex_def Collect_def setExtraDataInSection_def
  findExtraDataField_def setFlat_def subsectionOf_def newValue_def noLoc_def
  intMode_of_def ContainsAny_def intModeDefault_def typeModes_def Dec_def Hex_def Oct_def

text \<open>The field \<open>Verbose\<close> of the example schema and a text that is no boolean
  literal: a data error, and the state as it was.\<close>

theorem bool_field_witness:
  "setField exampleEnv boolT (0, [0, 2]) (newTag []) noLoc False ''not-a-bool'' exampleState =
   Inr (Some (locErr ''failed to parse bool'' noLoc), exampleState)"
proof -
  have k: "Kind boolT = Bool"
    by (simp add: boolT_def)
  have a: "TextUnmarshaler exampleEnv boolT = None"
    by (simp add: exampleEnv_def)
  have b: "load exampleState (0, [0, 2]) = Inr (VBool False)"
    by (simp add: load_def exampleState_def)
  have c: "ParseBool exampleEnv ''not-a-bool'' = Inl ''failed to parse bool''"
    by (simp add: exampleEnv_def exampleParseBool_def asciiLower_def)
  show ?thesis
    using bool_field[OF k a b, of "newTag []" noLoc "''not-a-bool''"] c by blast
qed

text \<open>C8 as stated fails for a field of boolean kind whose type has a
  text-unmarshal method: the chain asks that method first, and a blank
  assignment to \<open>Bare\<close> is an error, not \<open>true\<close>.\<close>

theorem bool_blank_counterexample:
  "set_cfg flagEnv (PtrTo [] ConfigT) (VPtr (Some (0, []))) ''core'' [] ''bare'' True [] False
     exampleState =
   Inr (Some (locErr ''blank value not supported for type''
               \<lparr>loc_section = ''core'', loc_subsection = None, loc_variable = Some ''bare''\<rparr>),
        exampleState)"
  by (simp add: example_defs engine_defs)

section \<open>A catch-all field of another type\<close>





section \<open>An unknown section\<close>

text \<open>
  C10. For every tuple whose section name matches no field of the schema
  struct, \<open>set\<close> hands an \<open>extraData\<close> diagnostic with the section alone to the
  collector, whatever \<open>subsectPass\<close> is, and changes nothing else. With a
  collector that is collecting and takes \<open>extraData\<close> as a warning, two calls for
  the same tuple, one for each pass, collect that diagnostic twice.
\<close>

theorem unknown_section:
  assumes "Kind cT = Struct"
    and "fieldFold E cT sect = Inr None"
    and "\<not> isDone (coll s)"
    and "e = extraData \<lparr>loc_section = sect, loc_subsection = None, loc_variable = None\<rparr>"
    and "\<not> IsFatal (coll s) e"
    and "s1 = s\<lparr>coll := (coll s)\<lparr>Warnings := Warnings (coll s) @ [e]\<rparr>\<rparr>"
    and "s2 = s\<lparr>coll := (coll s)\<lparr>Warnings := Warnings (coll s) @ [e, e]\<rparr>\<rparr>"
  shows "set_cfg E (PtrTo pn cT) (VPtr (Some pC)) sect sub name blank value p s =
           Inr (Fatal (coll s), s1) \<and>
         set_cfg E (PtrTo pn cT) (VPtr (Some pC)) sect sub name blank value q s1 =
           Inr (Fatal (coll s), s2) \<and>
         objs s2 = objs s \<and> tbls s2 = tbls s"
  using assms by (simp add: set_cfg_def Collect_def Let_def)

theorem unknown_section_witness:
  "set_cfg exampleEnv (PtrTo [] ConfigT) (VPtr (Some (0, []))) ''user'' [] ''name'' False ''me'' True
     exampleState =
   Inr (None, exampleState\<lparr>coll := exampleCollector\<lparr>Warnings :=
          [extraData \<lparr>loc_section = ''user'', loc_subsection = None, loc_variable = None\<rparr>]\<rparr>\<rparr>) \<and>
   set_cfg exampleEnv (PtrTo [] ConfigT) (VPtr (Some (0, []))) ''user'' [] ''name'' False ''me'' False
     (exampleState\<lparr>coll := exampleCollector\<lparr>Warnings :=
          [extraData \<lparr>loc_section = ''user'', loc_subsection = None, loc_variable = None\<rparr>]\<rparr>\<rparr>) =
   Inr (None, exampleState\<lparr>coll := exampleCollector\<lparr>Warnings :=
          [extraData \<lparr>loc_section = ''user'', loc_subsection = None, loc_variable = None\<rparr>,
           extraData \<lparr>loc_section = ''user'', loc_subsection = None, loc_variable = None\<rparr>]\<rparr>\<rparr>)"
proof -
  have nomatch: "fieldFold exampleEnv ConfigT ''user'' = Inr None"
    by (simp add: example_defs fieldFold_def FieldByNameFunc_def fieldMatch_def foldedName_def
        newTag_def HasPrefix_def)
  have k: "Kind ConfigT = Struct"
    by (simp add: ConfigT_def)
  show ?thesis
    using unknown_section[OF k nomatch, of exampleState _ _ _ "[]" "(0, [])" "[]" "''name''" False
        "''me''" True False]
    by (simp add: exampleState_def exampleCollector_def)
qed

section \<open>A section that is a map of strings\<close>

lemma load_tbls_update [simp]: "load (s\<lparr>tbls := x\<rparr>) pl = load s pl"
  by (simp add: load_def)

lemma load_coll_update [simp]: "load (s\<lparr>coll := x\<rparr>) pl = load s pl"
  by (simp add: load_def)

lemma loadMap_load: "loadMap s pl = Inr mo \<Longrightarrow> load s pl = Inr (VMap mo)"
  by (cases "load s pl"; simp add: loadMap_def) (simp split: val.splits)

lemma fieldFold_converters [simp]:
  "fieldFold (E\<lparr>ParseBool := pb, ParseInt := pi, ScanFully := sf, TextUnmarshaler := tu\<rparr>) T name =
   fieldFold E T name"
proof -
  have "fieldMatch (E\<lparr>ParseBool := pb, ParseInt := pi, ScanFully := sf, TextUnmarshaler := tu\<rparr>) fs name =
        fieldMatch E fs name" for fs
    by (rule ext) (simp add: fieldMatch_def foldedName_def cong: option.case_cong prod.case_cong if_cong)
  then show ?thesis by (cases T) (simp_all add: fieldFold_def)
qed

lemma set_cfg_flat:
  assumes "Kind cT = Struct"
    and "fieldFold E cT sect = Inr (Some (i, MapOf mn kT eT, tg))"
    and "Kind kT = String" and "Kind eT = String"
  shows "set_cfg E (PtrTo pn cT) (VPtr (Some pC)) sect sub name blank value True s =
         setFlat kT eT (field_of pC i) sub name value s"
  using assms by (simp add: set_cfg_def Let_def)

lemma setFlat_present:
  assumes "loadMap s pl = Inr (Some a)" and "a < length (tbls s)"
  shows "setFlat stringT stringT pl sub name value s =
         Inr (None, if value = [] then s
                    else s\<lparr>tbls := (tbls s)[a := (tbls s ! a)
                           ((if sub \<noteq> [] then sub @ '' '' @ name else name) \<mapsto> VString value)]\<rparr>)"
  using assms by (simp add: setFlat_def directlyAssignable_def SetMapIndex_def)

lemma setFlat_nil:
  assumes "loadMap s pl = Inr None"
    and "store (s\<lparr>tbls := tbls s @ [Map.empty]\<rparr>) pl (VMap (Some (length (tbls s)))) = Inr s1"
  shows "setFlat stringT stringT pl sub name value s =
         Inr (None, if value = [] then s1
                    else s1\<lparr>tbls := (tbls s1)[length (tbls s) := (tbls s1 ! length (tbls s))
                           ((if sub \<noteq> [] then sub @ '' '' @ name else name) \<mapsto> VString value)]\<rparr>)"
proof -
  have "tbls s1 = tbls s @ [Map.empty]"
    using store_frame[OF assms(2)] by simp
  then show ?thesis
    using assms by (simp add: setFlat_def allocTable_def directlyAssignable_def SetMapIndex_def)
qed

text \<open>
  C9. For every section field of type map from \<open>string\<close> to \<open>string\<close>, in the pass
  for map sections: the map is created when it is nil; a call with the empty
  value stores no entry, whatever \<open>blank\<close>, the subsection and the variable name
  are; a call with another value stores that value under the name, or under the
  subsection, a space and the name when there is a subsection, and changes no
  other entry. The converters have no part in the result.
\<close>

theorem flat_section:
  assumes "Kind cT = Struct"
    and "fieldFold E cT sect = Inr (Some (i, MapOf mn stringT stringT, tg))"
    and "loadMap s (field_of pC i) = Inr mo"
    and "\<forall>a. mo = Some a \<longrightarrow> a < length (tbls s)"
    and "key = (if sub \<noteq> [] then sub @ '' '' @ name else name)"
  shows "(\<exists>a s1.
            (case mo of
               Some a' \<Rightarrow> a = a' \<and> s1 = s
             | None \<Rightarrow> a = length (tbls s) \<and>
                 store (s\<lparr>tbls := tbls s @ [Map.empty]\<rparr>) (field_of pC i) (VMap (Some a)) = Inr s1) \<and>
            a < length (tbls s1) \<and>
            set_cfg E (PtrTo pn cT) (VPtr (Some pC)) sect sub name blank value True s =
              Inr (None,
                   if value = [] then s1
                   else s1\<lparr>tbls := (tbls s1)[a := (tbls s1 ! a)(key \<mapsto> VString value)]\<rparr>)) \<and>
         (\<forall>pb pi sf tu.
            set_cfg (E\<lparr>ParseBool := pb, ParseInt := pi, ScanFully := sf, TextUnmarshaler := tu\<rparr>)
              (PtrTo pn cT) (VPtr (Some pC)) sect sub name blank value True s =
            set_cfg E (PtrTo pn cT) (VPtr (Some pC)) sect sub name blank value True s)"
proof (rule conjI)
  have k: "Kind stringT = String" by (simp add: stringT_def)
  have flat: "set_cfg E (PtrTo pn cT) (VPtr (Some pC)) sect sub name blank value True s =
         setFlat stringT stringT (field_of pC i) sub name value s"
    by (rule set_cfg_flat[OF assms(1,2) k k])
  show "\<exists>a s1.
          (case mo of
             Some a' \<Rightarrow> a = a' \<and> s1 = s
           | None \<Rightarrow> a = length (tbls s) \<and>
               store (s\<lparr>tbls := tbls s @ [Map.empty]\<rparr>) (field_of pC i) (VMap (Some a)) = Inr s1) \<and>
          a < length (tbls s1) \<and>
          set_cfg E (PtrTo pn cT) (VPtr (Some pC)) sect sub name blank value True s =
            Inr (None,
                 if value = [] then s1
                 else s1\<lparr>tbls := (tbls s1)[a := (tbls s1 ! a)(key \<mapsto> VString value)]\<rparr>)"
  proof (cases mo)
    case None
    have "load (s\<lparr>tbls := tbls s @ [Map.empty]\<rparr>) (field_of pC i) = Inr (VMap None)"
      using loadMap_load[OF assms(3)] None by simp
    then obtain s1 where s1:
      "store (s\<lparr>tbls := tbls s @ [Map.empty]\<rparr>) (field_of pC i) (VMap (Some (length (tbls s)))) = Inr s1"
      using store_defined by blast
    then have "tbls s1 = tbls s @ [Map.empty]"
      using store_frame[OF s1] by simp
    then show ?thesis
      using None s1 flat setFlat_nil[OF _ s1] assms(3,5) by auto
  next
    case (Some a)
    then show ?thesis
      using flat setFlat_present[of s "field_of pC i" a] assms(3,4,5) by auto
  qed
next
  have k: "Kind stringT = String" by (simp add: stringT_def)
  show "\<forall>pb pi sf tu.
          set_cfg (E\<lparr>ParseBool := pb, ParseInt := pi, ScanFully := sf, TextUnmarshaler := tu\<rparr>)
            (PtrTo pn cT) (VPtr (Some pC)) sect sub name blank value True s =
          set_cfg E (PtrTo pn cT) (VPtr (Some pC)) sect sub name blank value True s"
    using assms(2) by (simp add: set_cfg_flat[OF assms(1) _ k k])
qed

text \<open>The tuple \<open>alias.co = checkout\<close> on the example schema, whose \<open>Alias\<close> map is
  nil: the map is created and holds the one entry.\<close>

theorem flat_section_witness:
  "set_cfg exampleEnv (PtrTo [] ConfigT) (VPtr (Some (0, []))) ''alias'' [] ''co'' False ''checkout'' True
     exampleState =
   Inr (None,
        exampleState
          \<lparr>objs := [VStruct
             [VStruct [VString [], VBool False, VBool False, VPtr None, VSlice [], VInt 0],
              VMap (Some 0), VMap None,
              VStruct [VString [], VSlice [], VPtr None]]],
           tbls := [[''co'' \<mapsto> VString ''checkout'']]\<rparr>)"
proof -
  have k: "Kind ConfigT = Struct"
    by (simp add: ConfigT_def)
  have f: "fieldFold exampleEnv ConfigT ''alias'' = Inr (Some (1, MapOf [] stringT stringT, newTag []))"
    by (simp add: example_defs fieldFold_def FieldByNameFunc_def fieldMatch_def foldedName_def
        newTag_def HasPrefix_def)
  have l: "loadMap exampleState (field_of (0, []) 1) = Inr None"
    by (simp add: loadMap_def load_def field_of_def exampleState_def)
  have b: "\<forall>a. (None :: addr option) = Some a \<longrightarrow> a < length (tbls exampleState)"
    by simp
  show ?thesis
    using flat_section[OF k f l b refl, of "[]" "[]" "''co''" False "''checkout''"]
    by (auto simp: store_def field_of_def exampleState_def)
qed

section \<open>A nil pointer to a single value\<close>

lemma load_objs_append:
  "fst pl < length (objs s) \<Longrightarrow> load (s\<lparr>objs := objs s @ xs\<rparr>) pl = load s pl"
  by (simp add: load_def nth_append)

lemma load_fresh: "load (s\<lparr>objs := objs s @ [v]\<rparr>) (length (objs s), []) = Inr v"
  by (simp add: load_def)

lemma store_fresh:
  "store (s\<lparr>objs := objs s @ [v]\<rparr>) (length (objs s), []) w = Inr (s\<lparr>objs := objs s @ [w]\<rparr>)"
  by (simp add: store_def)

lemma convert_fresh:
  "convert E DT (length (objs s), []) blank value t (s\<lparr>objs := objs s @ [v]\<rparr>) =
   andThen (runSetters setters E DT v blank value t None)
     (\<lambda>(d', r). Inr (r, s\<lparr>objs := objs s @ [d']\<rparr>))"
  by (simp add: convert_def load_fresh store_fresh cong: sum.case_cong)

lemma destination_nil:
  assumes "load s pVal = Inr (VPtr None)"
  shows "destination (PtrTo [] e) pVal s =
         Inr ((True, e, (length (objs s), [])), s\<lparr>objs := objs s @ [Zero e]\<rparr>)"
  using assms by (simp add: destination_def loadPtr_def alloc_def)

lemma setField_nil_pointer:
  assumes "\<not> isMultiVal (PtrTo [] e)" and "load s pVar = Inr (VPtr None)"
  shows "setField E (PtrTo [] e) pVar t l blank value s =
         andThen (runSetters setters E e (Zero e) blank value t None) (\<lambda>(d', r).
           case r of
             Some msg \<Rightarrow> Inr (Some (locErr msg l), s\<lparr>objs := objs s @ [d']\<rparr>)
           | None \<Rightarrow>
               andThen (store (s\<lparr>objs := objs s @ [d']\<rparr>) pVar (VPtr (Some (length (objs s), []))))
                 (\<lambda>s'. Inr (None, s')))"
  using assms(1)
  by (cases "runSetters setters E e (Zero e) blank value t None")
    (auto simp: setField_def setValue_def newElem_def destination_nil[OF assms(2)] convert_fresh
      split: option.splits)

text \<open>
  C6. For every single-valued field whose type is an unnamed pointer and which
  is nil, \<open>set\<close> allocates a zero value of the element type in a fresh cell and
  runs the chain on it. When the chain fails, the error is returned, the field
  is still nil and no cell or table that existed is changed; when it succeeds,
  the field points to the fresh cell, which holds the converted value, and no
  other cell is changed.
\<close>

theorem nil_pointer_field:
  assumes "\<not> isMultiVal (PtrTo [] e)" and "load s pVar = Inr (VPtr None)"
  shows "(\<forall>d' msg. runSetters setters E e (Zero e) blank value t None = Inr (d', Some msg) \<longrightarrow>
            (\<exists>s'. setField E (PtrTo [] e) pVar t l blank value s = Inr (Some (locErr msg l), s') \<and>
                  load s' pVar = Inr (VPtr None) \<and>
                  take (length (objs s)) (objs s') = objs s \<and>
                  tbls s' = tbls s \<and> coll s' = coll s)) \<and>
         (\<forall>d'. runSetters setters E e (Zero e) blank value t None = Inr (d', None) \<longrightarrow>
            (\<exists>s'. setField E (PtrTo [] e) pVar t l blank value s = Inr (None, s') \<and>
                  load s' pVar = Inr (VPtr (Some (length (objs s), []))) \<and>
                  load s' (length (objs s), []) = Inr d' \<and>
                  (\<forall>a < length (objs s). a \<noteq> fst pVar \<longrightarrow> objs s' ! a = objs s ! a) \<and>
                  tbls s' = tbls s \<and> coll s' = coll s)) \<and>
         (\<forall>a. runSetters setters E e (Zero e) blank value t None = Inl a \<longrightarrow>
            setField E (PtrTo [] e) pVar t l blank value s = Inl a)"
proof (intro conjI allI impI)
  fix d' msg
  assume r: "runSetters setters E e (Zero e) blank value t None = Inr (d', Some msg)"
  have b: "fst pVar < length (objs s)"
    using load_bound[OF assms(2)] .
  have "setField E (PtrTo [] e) pVar t l blank value s =
          Inr (Some (locErr msg l), s\<lparr>objs := objs s @ [d']\<rparr>)"
    by (simp add: setField_nil_pointer[OF assms] r)
  moreover have "load (s\<lparr>objs := objs s @ [d']\<rparr>) pVar = Inr (VPtr None)"
    using assms(2) b by (simp add: load_objs_append)
  ultimately show "\<exists>s'. setField E (PtrTo [] e) pVar t l blank value s = Inr (Some (locErr msg l), s') \<and>
                  load s' pVar = Inr (VPtr None) \<and>
                  take (length (objs s)) (objs s') = objs s \<and>
                  tbls s' = tbls s \<and> coll s' = coll s"
    by simp
next
  fix d'
  assume r: "runSetters setters E e (Zero e) blank value t None = Inr (d', None)"
  have b: "fst pVar < length (objs s)"
    using load_bound[OF assms(2)] .
  have "load (s\<lparr>objs := objs s @ [d']\<rparr>) pVar = Inr (VPtr None)"
    using assms(2) b by (simp add: load_objs_append)
  then obtain s' where
    st: "store (s\<lparr>objs := objs s @ [d']\<rparr>) pVar (VPtr (Some (length (objs s), []))) = Inr s'"
    using store_defined by blast
  have sf: "setField E (PtrTo [] e) pVar t l blank value s = Inr (None, s')"
    by (simp add: setField_nil_pointer[OF assms] r st)
  have fr: "length (objs s') = Suc (length (objs s))" "tbls s' = tbls s" "coll s' = coll s"
    "\<forall>a. a \<noteq> fst pVar \<longrightarrow> objs s' ! a = (objs s @ [d']) ! a"
    using store_frame[OF st] by simp_all
  have "load s' (length (objs s), []) = Inr d'"
    using fr(1) fr(4) b by (simp add: load_def)
  moreover have "\<forall>a < length (objs s). a \<noteq> fst pVar \<longrightarrow> objs s' ! a = objs s ! a"
    using fr(4) by (simp add: nth_append)
  ultimately show "\<exists>s'. setField E (PtrTo [] e) pVar t l blank value s = Inr (None, s') \<and>
                  load s' pVar = Inr (VPtr (Some (length (objs s), []))) \<and>
                  load s' (length (objs s), []) = Inr d' \<and>
                  (\<forall>a < length (objs s). a \<noteq> fst pVar \<longrightarrow> objs s' ! a = objs s ! a) \<and>
                  tbls s' = tbls s \<and> coll s' = coll s"
    using sf load_store_same[OF st] fr(2,3) by blast
next
  fix a
  assume "runSetters setters E e (Zero e) blank value t None = Inl a"
  then show "setField E (PtrTo [] e) pVar t l blank value s = Inl a"
    by (simp add: setField_nil_pointer[OF assms])
qed

text \<open>The field \<open>Limit\<close> of the example schema, a nil \<open>*int\<close>, and a blank value,
  which no integer takes: the error is returned and \<open>Limit\<close> is still nil.\<close>

theorem nil_pointer_field_witness:
  "\<exists>s'. setField exampleEnv (PtrTo [] intT) (0, [0, 3]) (newTag []) noLoc True [] exampleState =
           Inr (Some (locErr ''blank value not supported for type'' noLoc), s') \<and>
         load s' (0, [0, 3]) = Inr (VPtr None) \<and>
         take (length (objs exampleState)) (objs s') = objs exampleState"
proof -
  have m: "\<not> isMultiVal (PtrTo [] intT)"
    by (simp add: isMultiVal_def intT_def)
  have l: "load exampleState (0, [0, 3]) = Inr (VPtr None)"
    by (simp add: load_def exampleState_def)
  have r: "runSetters setters exampleEnv intT (Zero intT) True [] (newTag []) None =
           Inr (VInt 0, Some ''blank value not supported for type'')"
    by (simp add: setters_def typeSetter_def typeSetters_def textUnmarshalerSetter_def
        kindSetter_def kindSetters_def intSetter_def exampleEnv_def intT_def bigInt_def)
  show ?thesis
    using nil_pointer_field[OF m l, of exampleEnv True "[]" "newTag []" noLoc] r by blast
qed

section \<open>Multi-valued variables\<close>



















section \<open>What a call changes\<close>







lemma unchanged_coll:
  assumes "n \<le> length (objs s)" and "m \<le> length (tbls s)"
  shows "unchanged n m W Wt s (s\<lparr>coll := c\<rparr>)"
  using assms by (simp add: unchanged_def)


lemma unchanged_Collect:
  assumes "Collect (coll s) e = Inr (r, c)" and "n \<le> length (objs s)" and "m \<le> length (tbls s)"
  shows "unchanged n m W Wt s (s\<lparr>coll := c\<rparr>)"
  using assms(2,3) by (rule unchanged_coll)




lemma Zero_no_pointers:
  "ptrs (Zero T) = {} \<and> tables (Zero T) = {}"
  "ptrs (ZeroField f) = {} \<and> tables (ZeroField f) = {}"
  by (induction T and f rule: Zero_ZeroField.induct) auto


lemma Zero_not_map: "Zero T \<noteq> VMap (Some a)"
  using Zero_no_pointers(1)[of T] by auto














lemma grows_alloc: "alloc s v = (p, s') \<Longrightarrow> grows s s' \<and> p = (length (objs s), [])"
  by (auto simp: grows_def alloc_def)

lemma grows_allocTable: "allocTable s mp = (a, s') \<Longrightarrow> grows s s' \<and> a = length (tbls s)"
  by (auto simp: grows_def allocTable_def)




lemma load_after_grows:
  assumes "grows s s'" and "fst pl < length (objs s)"
  shows "load s' pl = load s pl"
  using assms by (auto simp: grows_def load_def nth_append)

lemma store_coll_update:
  "store (s\<lparr>coll := c\<rparr>) pl w = (case store s pl w of Inl a \<Rightarrow> Inl a | Inr s' \<Rightarrow> Inr (s'\<lparr>coll := c\<rparr>))"
  by (simp add: store_def split: option.splits)








end
